theory Spec2Isabelle
  imports Main "HOL-Library.Sublist"
begin

section \<open>The circuit drawer of Strawberry Fields\<close>

text \<open>
  A shallow embedding of \<^verbatim>\<open>strawberryfields/circuitdrawer.py\<close>: the class
  \<^verbatim>\<open>Circuit\<close>, its translation of operators into gates (\<^verbatim>\<open>parse_op\<close>), the three
  placement strategies on the circuit matrix and the serialisation of the matrix into a
  document string.
\<close>

subsection \<open>The template table\<close>

text \<open>
  The module \<^verbatim>\<open>qcircuit_strings\<close>, from which the drawer imports its markup constants, is
  not among the sources. Its constants are parameters of the model, collected in one record
  that every function takes as its first argument. A template that the drawer only ever uses
  through \<^verbatim>\<open>.format(x)\<close> is represented by the function \<open>x \<mapsto> TEMPLATE.format(x)\<close>; the
  other constants are plain strings.
\<close>

record qcircuit_strings =
  QUANTUM_WIRE :: "int \<Rightarrow> string"
  PAULI_X_COMP :: string
  PAULI_Z_COMP :: string
  CONTROL :: "int \<Rightarrow> string"
  TARGET :: string
  COLUMN_SPACING :: "int \<Rightarrow> string"
  ROW_SPACING :: "int \<Rightarrow> string"
  DOCUMENT_END :: string
  WIRE_OPERATION :: "string \<Rightarrow> string"
  WIRE_TERMINATOR :: string
  CIRCUIT_BODY_TERMINATOR :: string
  CIRCUIT_BODY_START :: string
  INIT_DOCUMENT :: string
  PIPE :: string
  D_COMP :: string
  R_COMP :: string
  P_COMP :: string
  V_COMP :: string
  FOURIER_COMP :: string
  BS_COMP :: string
  S_COMP :: string
  K_COMP :: string

subsection \<open>Python primitives\<close>

text \<open>Decimal rendering of a number, as \<^verbatim>\<open>'{0}'.format(n)\<close> prints an integer.\<close>

fun str_nat :: "nat \<Rightarrow> string" where
  "str_nat n =
     (if n < 10 then [char_of (48 + n)]
      else str_nat (n div 10) @ [char_of (48 + n mod 10)])"

declare str_nat.simps [simp del]

definition str_int :: "int \<Rightarrow> string" where
  "str_int i = (if i < 0 then CHR ''-'' # str_nat (nat (- i)) else str_nat (nat i))"

text \<open>
  \<^verbatim>\<open>xs[i]\<close> on a list of length \<open>n\<close>: the position that the index \<open>i\<close> denotes, negative
  indices counting from the end; \<open>None\<close> is Python's \<^verbatim>\<open>IndexError\<close>.
\<close>

definition py_index :: "nat \<Rightarrow> int \<Rightarrow> nat option" where
  "py_index n i =
     (if 0 \<le> i \<and> i < int n then Some (nat i)
      else if i < 0 \<and> - int n \<le> i then Some (nat (int n + i))
      else None)"

text \<open>
  A bound of a slice \<^verbatim>\<open>xs[:i]\<close> or \<^verbatim>\<open>xs[i:]\<close>: a negative bound counts from the end, and
  the result is clamped to \<open>0 .. n\<close>.
\<close>

definition slice_bound :: "nat \<Rightarrow> int \<Rightarrow> nat" where
  "slice_bound n i = (if i < 0 then nat (int n + i) else min n (nat i))"

text \<open>\<^verbatim>\<open>xs[-1] = x\<close> on a list that is not empty.\<close>

definition set_last :: "'a \<Rightarrow> 'a list \<Rightarrow> 'a list" where
  "set_last x xs = butlast xs @ [x]"

text \<open>
  \<^verbatim>\<open>s.split(sep)[0]\<close> for a separator that is not empty: the text before the first
  occurrence of the separator, the whole string when there is none.
\<close>

fun split_first :: "string \<Rightarrow> string \<Rightarrow> string" where
  "split_first sep [] = []"
| "split_first sep (c # cs) = (if prefix sep (c # cs) then [] else c # split_first sep cs)"

subsection \<open>Data\<close>

text \<open>
  An operator as the drawer sees it: \<^verbatim>\<open>str(op)\<close> and the indices \<^verbatim>\<open>register.ind\<close> of
  \<^verbatim>\<open>op.reg\<close>.
\<close>

record operation =
  op_str :: string
  op_reg :: "int list"

datatype error =
    UnsupportedGateException string
  | ModeMismatchException string
  | IndexError
  | ValueError
  | TypeError

type_synonym matrix = "string list list"

record circuit =
  document :: string
  circuit_matrix :: matrix
  column_spacing :: "int option"
  row_spacing :: "int option"

text \<open>The bound methods stored in the two gate tables.\<close>

datatype gate_method =
    m_x | m_z | m_d | m_s | m_r | m_p | m_v | m_k | m_fourier
  | m_cx | m_cz | m_ck | m_bs | m_s2

text \<open>
  The constructor. Every wire gets a list object of its own, and no method ever stores one
  row object at two places of the matrix, so rows never alias and the matrix is modelled by
  its value, a list of lists.
\<close>

definition Circuit_init :: "qcircuit_strings \<Rightarrow> int \<Rightarrow> circuit" where
  "Circuit_init T wires =
     \<lparr> document = [],
       circuit_matrix = replicate (nat wires) [QUANTUM_WIRE T 1],
       column_spacing = None,
       row_spacing = None \<rparr>"

text \<open>The dictionaries, in insertion order, which is the order a \<^verbatim>\<open>for\<close> loop visits the keys in.\<close>

definition single_mode_gates :: "(string \<times> gate_method) list" where
  "single_mode_gates =
     [(''Xgate'', m_x), (''Zgate'', m_z), (''Dgate'', m_d), (''Sgate'', m_s),
      (''Rgate'', m_r), (''Pgate'', m_p), (''Vgate'', m_v), (''Kgate'', m_k),
      (''FourierGate'', m_fourier)]"

definition two_mode_gates :: "(string \<times> gate_method) list" where
  "two_mode_gates =
     [(''CXgate'', m_cx), (''CZgate'', m_cz), (''CKgate'', m_ck), (''BSgate'', m_bs),
      (''S2gate'', m_s2)]"

subsection \<open>Translating operators\<close>

text \<open>
  One of the two loops of \<^verbatim>\<open>_gate_from_operator\<close>: every key of the table that occurs in
  \<open>operator\<close> (Python's \<^verbatim>\<open>key in operator\<close> on strings is \<^const>\<open>sublist\<close>) overwrites
  \<open>method\<close> and \<open>mode\<close>; the loop has no \<^verbatim>\<open>break\<close>.
\<close>

fun scan_gates ::
  "(string \<times> gate_method) list \<Rightarrow> nat \<Rightarrow> string \<Rightarrow>
   gate_method option \<times> nat option \<Rightarrow> gate_method option \<times> nat option" where
  "scan_gates [] n operator acc = acc"
| "scan_gates ((key, f) # rest) n operator acc =
     scan_gates rest n operator (if sublist key operator then (Some f, Some n) else acc)"

definition gate_from_operator ::
  "qcircuit_strings \<Rightarrow> string \<Rightarrow> error + (gate_method option \<times> nat option)" where
  "gate_from_operator T s =
     (if PIPE T = [] then Inl ValueError
      else
        let operator = split_first (PIPE T) s;
            found = scan_gates two_mode_gates 2 operator (None, None)
        in if fst found = None
           then Inr (scan_gates single_mode_gates 1 operator found)
           else Inr found)"

subsection \<open>The placement strategies\<close>

definition is_empty :: "qcircuit_strings \<Rightarrow> string \<Rightarrow> bool" where
  "is_empty T op = (op = QUANTUM_WIRE T 1)"

text \<open>
  The strategies read and write \<^verbatim>\<open>self._circuit_matrix\<close> only. Each returns the exception
  it raised, if any, with the matrix as it is when the call ends.
\<close>

definition single_mode_gate ::
  "qcircuit_strings \<Rightarrow> int \<Rightarrow> string \<Rightarrow> matrix \<Rightarrow> error option \<times> matrix" where
  "single_mode_gate T wire circuit_op m =
     (case py_index (length m) wire of
        None \<Rightarrow> (Some IndexError, m)
      | Some k \<Rightarrow>
          let wire_ops = m ! k in
          if wire_ops = [] then (Some IndexError, m)
          else if is_empty T (last wire_ops) then (None, m[k := set_last circuit_op wire_ops])
          else
            let m1 = m[k := wire_ops @ [circuit_op]];
                stop = slice_bound (length m) wire;
                m2 = map (\<lambda>prev_wire. prev_wire @ [QUANTUM_WIRE T 1]) (take stop m1) @ drop stop m1;
                start = slice_bound (length m) (wire + 1);
                m3 = take start m2 @ map (\<lambda>post_wire. post_wire @ [QUANTUM_WIRE T 1]) (drop start m2)
            in (None, m3))"

fun on_empty_column :: "qcircuit_strings \<Rightarrow> matrix \<Rightarrow> error + bool" where
  "on_empty_column T [] = Inr True"
| "on_empty_column T (wire_ops # rest) =
     (if wire_ops = [] then Inl IndexError
      else if \<not> is_empty T (last wire_ops) then Inr False
      else on_empty_column T rest)"

definition add_column :: "qcircuit_strings \<Rightarrow> matrix \<Rightarrow> matrix" where
  "add_column T m = map (\<lambda>wire. wire @ [QUANTUM_WIRE T 1]) m"

text \<open>The loop \<^verbatim>\<open>for wire in wires\<close> of \<^verbatim>\<open>_multi_mode_gate\<close>.\<close>

fun write_wires :: "string \<Rightarrow> int list \<Rightarrow> matrix \<Rightarrow> error option \<times> matrix" where
  "write_wires circuit_op [] m = (None, m)"
| "write_wires circuit_op (wire # wires) m =
     (case py_index (length m) wire of
        None \<Rightarrow> (Some IndexError, m)
      | Some k \<Rightarrow>
          if m ! k = [] then (Some IndexError, m)
          else write_wires circuit_op wires (m[k := set_last circuit_op (m ! k)]))"

definition multi_mode_gate ::
  "qcircuit_strings \<Rightarrow> string \<Rightarrow> int list \<Rightarrow> matrix \<Rightarrow> error option \<times> matrix" where
  "multi_mode_gate T circuit_op wires m =
     (case on_empty_column T m of
        Inl e \<Rightarrow> (Some e, m)
      | Inr empty_column \<Rightarrow>
          write_wires circuit_op wires (if \<not> empty_column then add_column T m else m))"

definition controlled_mode_gate ::
  "qcircuit_strings \<Rightarrow> int \<Rightarrow> int \<Rightarrow> string \<Rightarrow> matrix \<Rightarrow> error option \<times> matrix" where
  "controlled_mode_gate T source_wire target_wire circuit_op m =
     (case py_index (length m) source_wire of
        None \<Rightarrow> (Some IndexError, m)
      | Some ks \<Rightarrow>
         (case py_index (length m) target_wire of
            None \<Rightarrow> (Some IndexError, m)
          | Some kt \<Rightarrow>
              let distance = target_wire - source_wire;
                  appended =
                    map (\<lambda>(index, wire_ops).
                           if int index = source_wire then wire_ops @ [CONTROL T distance]
                           else if int index = target_wire then wire_ops @ [circuit_op]
                           else wire_ops @ [QUANTUM_WIRE T 1])
                        (enumerate 0 m)
              in
              if m ! ks = [] then (Some IndexError, m)
              else if is_empty T (last (m ! ks)) then
                (if m ! kt = [] then (Some IndexError, m)
                 else if is_empty T (last (m ! kt)) then
                   (let m1 = m[ks := set_last (CONTROL T distance) (m ! ks)]
                    in (None, m1[kt := set_last circuit_op (m1 ! kt)]))
                 else (None, appended))
              else (None, appended)))"

subsection \<open>The gate methods and the dispatch\<close>

text \<open>
  \<^verbatim>\<open>method(*wires)\<close>: a method of one wire called with one index, a method of two wires
  called with two; any other number of arguments is a \<^verbatim>\<open>TypeError\<close>.
\<close>

fun call1 ::
  "(int \<Rightarrow> matrix \<Rightarrow> error option \<times> matrix) \<Rightarrow> int list \<Rightarrow> matrix \<Rightarrow> error option \<times> matrix" where
  "call1 g [wire] m = g wire m"
| "call1 g wires m = (Some TypeError, m)"

fun call2 ::
  "(int \<Rightarrow> int \<Rightarrow> matrix \<Rightarrow> error option \<times> matrix) \<Rightarrow> int list \<Rightarrow> matrix \<Rightarrow>
   error option \<times> matrix" where
  "call2 g [first_wire, second_wire] m = g first_wire second_wire m"
| "call2 g wires m = (Some TypeError, m)"

fun call_method ::
  "qcircuit_strings \<Rightarrow> gate_method \<Rightarrow> int list \<Rightarrow> matrix \<Rightarrow> error option \<times> matrix" where
  "call_method T m_x = call1 (\<lambda>wire. single_mode_gate T wire (PAULI_X_COMP T))"
| "call_method T m_z = call1 (\<lambda>wire. single_mode_gate T wire (PAULI_Z_COMP T))"
| "call_method T m_s = call1 (\<lambda>wire. single_mode_gate T wire (S_COMP T))"
| "call_method T m_d = call1 (\<lambda>wire. single_mode_gate T wire (D_COMP T))"
| "call_method T m_r = call1 (\<lambda>wire. single_mode_gate T wire (R_COMP T))"
| "call_method T m_p = call1 (\<lambda>wire. single_mode_gate T wire (P_COMP T))"
| "call_method T m_v = call1 (\<lambda>wire. single_mode_gate T wire (V_COMP T))"
| "call_method T m_k = call1 (\<lambda>wire. single_mode_gate T wire (K_COMP T))"
| "call_method T m_fourier = call1 (\<lambda>wire. single_mode_gate T wire (FOURIER_COMP T))"
| "call_method T m_cx =
     call2 (\<lambda>source_wire target_wire. controlled_mode_gate T source_wire target_wire (TARGET T))"
| "call_method T m_cz =
     call2 (\<lambda>source_wire target_wire.
              controlled_mode_gate T source_wire target_wire (PAULI_Z_COMP T))"
| "call_method T m_ck =
     call2 (\<lambda>source_wire target_wire. controlled_mode_gate T source_wire target_wire (K_COMP T))"
| "call_method T m_bs =
     call2 (\<lambda>first_wire second_wire. multi_mode_gate T (BS_COMP T) [first_wire, second_wire])"
| "call_method T m_s2 =
     call2 (\<lambda>first_wire second_wire. multi_mode_gate T (S_COMP T) [first_wire, second_wire])"

text \<open>How \<^verbatim>\<open>'{0}'.format(mode)\<close> prints \<open>mode\<close>.\<close>

definition str_mode :: "nat option \<Rightarrow> string" where
  "str_mode mode = (case mode of None \<Rightarrow> ''None'' | Some n \<Rightarrow> str_nat n)"

definition parse_op :: "qcircuit_strings \<Rightarrow> operation \<Rightarrow> circuit \<Rightarrow> error option \<times> circuit" where
  "parse_op T op c =
     (case gate_from_operator T (op_str op) of
        Inl e \<Rightarrow> (Some e, c)
      | Inr (method, mode) \<Rightarrow>
          let wires = op_reg op in
          (case method of
             None \<Rightarrow>
               (Some (UnsupportedGateException
                        (''Unsupported operation '' @ op_str op @
                         '' not printable by circuit builder!'')), c)
           | Some f \<Rightarrow>
               if mode = Some (length wires) then
                 (case call_method T f wires (circuit_matrix c) of
                    (e, m') \<Rightarrow> (e, c\<lparr>circuit_matrix := m'\<rparr>))
               else
                 (Some (ModeMismatchException
                          (str_mode mode @ '' mode gate applied to '' @
                           str_nat (length wires) @ '' wires!'')), c)))"

subsection \<open>Spacing and serialisation\<close>

definition set_column_spacing :: "int \<Rightarrow> circuit \<Rightarrow> circuit" where
  "set_column_spacing spacing c = c\<lparr>column_spacing := Some spacing\<rparr>"

definition set_row_spacing :: "int \<Rightarrow> circuit \<Rightarrow> circuit" where
  "set_row_spacing spacing c = c\<lparr>row_spacing := Some spacing\<rparr>"

definition pad_with_spaces :: "string \<Rightarrow> string" where
  "pad_with_spaces s = '' '' @ s @ '' ''"

definition init_document :: "qcircuit_strings \<Rightarrow> circuit \<Rightarrow> circuit" where
  "init_document T c = c\<lparr>document := INIT_DOCUMENT T\<rparr>"

definition end_document :: "qcircuit_strings \<Rightarrow> circuit \<Rightarrow> circuit" where
  "end_document T c = c\<lparr>document := document c @ DOCUMENT_END T\<rparr>"

definition begin_circuit :: "qcircuit_strings \<Rightarrow> circuit \<Rightarrow> circuit" where
  "begin_circuit T c = c\<lparr>document := document c @ CIRCUIT_BODY_START T\<rparr>"

definition end_circuit :: "qcircuit_strings \<Rightarrow> circuit \<Rightarrow> circuit" where
  "end_circuit T c = c\<lparr>document := document c @ CIRCUIT_BODY_TERMINATOR T\<rparr>"

definition end_wire :: "qcircuit_strings \<Rightarrow> circuit \<Rightarrow> circuit" where
  "end_wire T c = c\<lparr>document := document c @ WIRE_TERMINATOR T\<rparr>"

definition apply_spacing :: "qcircuit_strings \<Rightarrow> circuit \<Rightarrow> circuit" where
  "apply_spacing T c =
     (let c1 = (case column_spacing c of
                  None \<Rightarrow> c
                | Some spacing \<Rightarrow>
                    c\<lparr>document := document c @ pad_with_spaces (COLUMN_SPACING T spacing)\<rparr>)
      in case row_spacing c1 of
           None \<Rightarrow> c1
         | Some spacing \<Rightarrow>
             c1\<lparr>document := document c1 @ pad_with_spaces (ROW_SPACING T spacing)\<rparr>)"

definition write_operation_to_document :: "qcircuit_strings \<Rightarrow> string \<Rightarrow> circuit \<Rightarrow> circuit" where
  "write_operation_to_document T operation c =
     c\<lparr>document := document c @ pad_with_spaces (WIRE_OPERATION T operation)\<rparr>"

text \<open>The inner and the outer loop of \<^verbatim>\<open>dump_to_document\<close>.\<close>

fun dump_wire :: "qcircuit_strings \<Rightarrow> string list \<Rightarrow> circuit \<Rightarrow> circuit" where
  "dump_wire T [] c = c"
| "dump_wire T (wire_op # rest) c = dump_wire T rest (write_operation_to_document T wire_op c)"

fun dump_wires :: "qcircuit_strings \<Rightarrow> matrix \<Rightarrow> circuit \<Rightarrow> circuit" where
  "dump_wires T [] c = c"
| "dump_wires T (wire_ops # rest) c = dump_wires T rest (end_wire T (dump_wire T wire_ops c))"

definition dump_to_document :: "qcircuit_strings \<Rightarrow> circuit \<Rightarrow> string \<times> circuit" where
  "dump_to_document T c =
     (let c1 = init_document T c;
          c2 = apply_spacing T c1;
          c3 = begin_circuit T c2;
          c4 = dump_wires T (circuit_matrix c3) c3;
          c5 = end_circuit T c4;
          c6 = end_document T c5
      in (document c6, c6))"

subsection \<open>Running events\<close>

text \<open>
  A caller feeds the operators of a program to \<^verbatim>\<open>parse_op\<close> one after the other. An
  exception ends the call that raised it; the circuit object stays as that call left it, and
  the caller may go on with the next operator.
\<close>

fun run_events :: "qcircuit_strings \<Rightarrow> operation list \<Rightarrow> circuit \<Rightarrow> circuit" where
  "run_events T [] c = c"
| "run_events T (op # ops) c = run_events T ops (snd (parse_op T op c))"

subsection \<open>Notions of the specification\<close>

text \<open>The grid is rectangular: all wires have the same number of cells.\<close>

definition rectangular :: "matrix \<Rightarrow> bool" where
  "rectangular m = (\<forall>r \<in> set m. \<forall>r' \<in> set m. length r = length r')"

text \<open>The entries of a gate table whose key occurs in the operator string, in table order.\<close>

definition matching :: "(string \<times> gate_method) list \<Rightarrow> string \<Rightarrow> (string \<times> gate_method) list" where
  "matching table operator = filter (\<lambda>(key, f). sublist key operator) table"

text \<open>
  The spacing directives of a document: column spacing, then row spacing, each only when it
  is set, each between two spaces.
\<close>

definition spacing_directives :: "qcircuit_strings \<Rightarrow> circuit \<Rightarrow> string" where
  "spacing_directives T c =
     (case column_spacing c of None \<Rightarrow> [] | Some v \<Rightarrow> '' '' @ COLUMN_SPACING T v @ '' '') @
     (case row_spacing c of None \<Rightarrow> [] | Some v \<Rightarrow> '' '' @ ROW_SPACING T v @ '' '')"

text \<open>
  The body of a document in the order the specification gives: wire after wire, and for each
  wire all its cells, each wrapped and padded, then one wire terminator.
\<close>

definition wire_major :: "qcircuit_strings \<Rightarrow> matrix \<Rightarrow> string" where
  "wire_major T m =
     concat (map (\<lambda>wire_ops.
                    concat (map (\<lambda>cell. '' '' @ WIRE_OPERATION T cell @ '' '') wire_ops) @
                    WIRE_TERMINATOR T) m)"

definition serialize :: "qcircuit_strings \<Rightarrow> circuit \<Rightarrow> string" where
  "serialize T c =
     INIT_DOCUMENT T @ spacing_directives T c @ CIRCUIT_BODY_START T @
     wire_major T (circuit_matrix c) @ CIRCUIT_BODY_TERMINATOR T @ DOCUMENT_END T"

subsection \<open>A concrete template table\<close>

text \<open>
  Modelled from the spec: the constants of the module \<^verbatim>\<open>qcircuit_strings\<close>, which is not
  among the sources. The specification treats them as an opaque, injectable table of
  templates, one per role; this instance takes the Q-circuit commands that the docstring of
  the drawer lists (\<^verbatim>\<open>\qw[#1]\<close>, \<^verbatim>\<open>\gate{#1}\<close>, \<^verbatim>\<open>\ctrl{#1}\<close>, \<^verbatim>\<open>\targ\<close>, \<^verbatim>\<open>@C=#1\<close>,
  \<^verbatim>\<open>@R=#1\<close>) and the separator of the specification's example \<^verbatim>\<open>Sgate(0.5) | (q[0])\<close>.
  The theorems below hold for every table; this one serves to run the model on concrete
  inputs.
\<close>

definition gate_box :: "string \<Rightarrow> string" where
  "gate_box caption = CHR 0x5C # ''gate{'' @ caption @ ''}''"

definition sample_strings :: qcircuit_strings where
  "sample_strings =
     \<lparr> QUANTUM_WIRE = (\<lambda>n. CHR 0x5C # ''qw['' @ str_int n @ '']''),
       PAULI_X_COMP = gate_box ''X'',
       PAULI_Z_COMP = gate_box ''Z'',
       CONTROL = (\<lambda>d. CHR 0x5C # ''ctrl{'' @ str_int d @ ''}''),
       TARGET = CHR 0x5C # ''targ'',
       COLUMN_SPACING = (\<lambda>n. ''@C='' @ str_int n),
       ROW_SPACING = (\<lambda>n. ''@R='' @ str_int n),
       DOCUMENT_END = CHR 0x5C # ''end{document}'',
       WIRE_OPERATION = (\<lambda>s. ''& '' @ s),
       WIRE_TERMINATOR = [CHR 0x5C, CHR 0x5C, CHR 0x0A],
       CIRCUIT_BODY_TERMINATOR = [CHR ''}'', CHR 0x0A],
       CIRCUIT_BODY_START = [CHR '' '', CHR ''{'', CHR 0x0A],
       INIT_DOCUMENT = CHR 0x5C # ''begin{document}'' @ [CHR 0x0A] @ CHR 0x5C # ''Qcircuit'',
       PIPE = ''|'',
       D_COMP = gate_box ''D'',
       R_COMP = gate_box ''R'',
       P_COMP = gate_box ''P'',
       V_COMP = gate_box ''V'',
       FOURIER_COMP = gate_box ''F'',
       BS_COMP = gate_box ''BS'',
       S_COMP = gate_box ''S'',
       K_COMP = gate_box ''K'' \<rparr>"

text \<open>A program of five operators for a circuit of three wires; the third is not drawable.\<close>

definition demo_ops :: "operation list" where
  "demo_ops =
     [\<lparr>op_str = ''Xgate(0.5) | (q[0])'', op_reg = [0]\<rparr>,
      \<lparr>op_str = ''Zgate(0.5) | (q[0])'', op_reg = [0]\<rparr>,
      \<lparr>op_str = ''MeasureFock() | (q[1])'', op_reg = [1]\<rparr>,
      \<lparr>op_str = ''BSgate(0.5, 0) | (q[0], q[1])'', op_reg = [0, 1]\<rparr>,
      \<lparr>op_str = ''CXgate(1) | (q[0], q[2])'', op_reg = [0, 2]\<rparr>]"

text \<open>What a call of a gate method can end with: no exception, or one of two built-in ones.\<close>

definition handler_error :: "error option \<Rightarrow> bool" where
  "handler_error e = (e = None \<or> e = Some IndexError \<or> e = Some TypeError)"

section \<open>Serialisation\<close>

lemma dump_wire_eq:
  "dump_wire T ops c =
     c\<lparr>document := document c @ concat (map (\<lambda>cell. '' '' @ WIRE_OPERATION T cell @ '' '') ops)\<rparr>"
  by (induction ops arbitrary: c)
     (simp_all add: write_operation_to_document_def pad_with_spaces_def)

lemma dump_wires_eq:
  "dump_wires T m c = c\<lparr>document := document c @ wire_major T m\<rparr>"
  by (induction m arbitrary: c) (simp_all add: wire_major_def dump_wire_eq end_wire_def)

lemma apply_spacing_eq:
  "apply_spacing T c = c\<lparr>document := document c @ spacing_directives T c\<rparr>"
  by (simp add: apply_spacing_def spacing_directives_def pad_with_spaces_def
           split: option.splits)

lemma dump_to_document_eq:
  "dump_to_document T c = (serialize T c, c\<lparr>document := serialize T c\<rparr>)"
  by (simp add: dump_to_document_def init_document_def apply_spacing_eq begin_circuit_def
                dump_wires_eq end_circuit_def end_document_def serialize_def
                spacing_directives_def)

text \<open>
  C9. The document that \<^verbatim>\<open>dump_to_document\<close> returns is the preamble, the spacing
  directives, the start of the body, then for each wire in index order all the cells of that
  wire in order, each wrapped in the wire-operation template and padded with spaces, followed
  by one wire terminator, and at the end the two closing markers. The cells of a wire are
  contiguous in the output: the traversal is by wire, not by column.
\<close>

theorem dump_to_document_wire_major:
  "fst (dump_to_document T c) =
     INIT_DOCUMENT T @ spacing_directives T c @ CIRCUIT_BODY_START T @
     concat (map (\<lambda>wire_ops.
                    concat (map (\<lambda>cell. pad_with_spaces (WIRE_OPERATION T cell)) wire_ops) @
                    WIRE_TERMINATOR T)
                 (circuit_matrix c)) @
     CIRCUIT_BODY_TERMINATOR T @ DOCUMENT_END T"
  by (simp add: dump_to_document_eq serialize_def wire_major_def pad_with_spaces_def)

theorem dump_to_document_wire_major_witness:
  "fst (dump_to_document sample_strings
          \<lparr>document = ''old'',
           circuit_matrix = [[QUANTUM_WIRE sample_strings 1, ''gateA''],
                             [QUANTUM_WIRE sample_strings 1, QUANTUM_WIRE sample_strings 1]],
           column_spacing = None, row_spacing = None\<rparr>) =
     INIT_DOCUMENT sample_strings @ CIRCUIT_BODY_START sample_strings @
     pad_with_spaces (WIRE_OPERATION sample_strings (QUANTUM_WIRE sample_strings 1)) @
     pad_with_spaces (WIRE_OPERATION sample_strings ''gateA'') @
     WIRE_TERMINATOR sample_strings @
     pad_with_spaces (WIRE_OPERATION sample_strings (QUANTUM_WIRE sample_strings 1)) @
     pad_with_spaces (WIRE_OPERATION sample_strings (QUANTUM_WIRE sample_strings 1)) @
     WIRE_TERMINATOR sample_strings @
     CIRCUIT_BODY_TERMINATOR sample_strings @ DOCUMENT_END sample_strings"
  unfolding dump_to_document_wire_major
  by (simp add: spacing_directives_def)

text \<open>
  C10. \<^verbatim>\<open>dump_to_document\<close> leaves the circuit matrix and both spacing values as they
  are: the circuit after the call is the circuit before it with only the document field
  replaced. The call overwrites the document rather than appending to it: the document
  stored after the call is the returned string, which starts afresh with
  \<^verbatim>\<open>INIT_DOCUMENT\<close> and is built from the spacing values and the matrix alone, so what the
  document held before the call has no influence on it. Hence a second call returns the same
  string as the first.
\<close>

theorem dump_to_document_repeatable:
  "circuit_matrix (snd (dump_to_document T c)) = circuit_matrix c \<and>
   column_spacing (snd (dump_to_document T c)) = column_spacing c \<and>
   row_spacing (snd (dump_to_document T c)) = row_spacing c \<and>
   fst (dump_to_document T (c\<lparr>document := d\<rparr>)) = fst (dump_to_document T c) \<and>
   fst (dump_to_document T (snd (dump_to_document T c))) = fst (dump_to_document T c) \<and>
   document (snd (dump_to_document T c)) = fst (dump_to_document T c) \<and>
   snd (dump_to_document T c) = c\<lparr>document := fst (dump_to_document T c)\<rparr> \<and>
   fst (dump_to_document T c) =
     INIT_DOCUMENT T @ spacing_directives T c @ CIRCUIT_BODY_START T @
     wire_major T (circuit_matrix c) @ CIRCUIT_BODY_TERMINATOR T @ DOCUMENT_END T"
  by (simp add: dump_to_document_eq serialize_def spacing_directives_def)

theorem dump_to_document_repeatable_witness:
  "document (snd (dump_to_document sample_strings
                    ((Circuit_init sample_strings 2)\<lparr>document := ''old''\<rparr>))) =
     fst (dump_to_document sample_strings
            ((Circuit_init sample_strings 2)\<lparr>document := ''old''\<rparr>)) \<and>
   fst (dump_to_document sample_strings
          (snd (dump_to_document sample_strings
                  ((Circuit_init sample_strings 2)\<lparr>document := ''old''\<rparr>)))) =
     fst (dump_to_document sample_strings
            ((Circuit_init sample_strings 2)\<lparr>document := ''old''\<rparr>)) \<and>
   fst (dump_to_document sample_strings
          ((Circuit_init sample_strings 2)\<lparr>document := ''old''\<rparr>)) =
     fst (dump_to_document sample_strings (Circuit_init sample_strings 2)) \<and>
   \<not> prefix ''old'' (fst (dump_to_document sample_strings
                              ((Circuit_init sample_strings 2)\<lparr>document := ''old''\<rparr>)))"
proof -
  let ?c = "(Circuit_init sample_strings 2)\<lparr>document := ''old''\<rparr>"
  note inst = dump_to_document_repeatable [of sample_strings ?c "''old''"]
  note inst0 = dump_to_document_repeatable
                 [of sample_strings "Circuit_init sample_strings 2" "''old''"]
  have stored: "document (snd (dump_to_document sample_strings ?c)) =
                  fst (dump_to_document sample_strings ?c)"
    using inst by (elim conjE)
  have again: "fst (dump_to_document sample_strings (snd (dump_to_document sample_strings ?c))) =
                 fst (dump_to_document sample_strings ?c)"
    using inst by (elim conjE)
  have fresh: "fst (dump_to_document sample_strings ?c) =
                 fst (dump_to_document sample_strings (Circuit_init sample_strings 2))"
    using inst0 by (elim conjE)
  have start: "\<not> prefix ''old'' (fst (dump_to_document sample_strings ?c))"
    by code_simp
  show ?thesis
    by (intro conjI) (fact stored, fact again, fact fresh, fact start)
qed

section \<open>Classification of operators\<close>

lemma scan_gates_eq:
  "scan_gates table n operator acc =
     (if matching table operator = [] then acc
      else (Some (snd (last (matching table operator))), Some n))"
  by (induction table arbitrary: acc) (auto simp: matching_def)

lemma gate_from_operator_eq:
  assumes "PIPE T \<noteq> []"
  shows "gate_from_operator T s =
     (let operator = split_first (PIPE T) s in
      Inr (if matching two_mode_gates operator \<noteq> []
           then (Some (snd (last (matching two_mode_gates operator))), Some 2)
           else if matching single_mode_gates operator \<noteq> []
           then (Some (snd (last (matching single_mode_gates operator))), Some 1)
           else (None, None)))"
  using assms by (simp add: gate_from_operator_def scan_gates_eq Let_def)

text \<open>
  C8. The gate kind is looked up in the text of the operator before the separator. When a
  key of the two-mode table occurs in it, the result is a method of that table (the one of
  the last such key, the loop having no break) with mode 2, and it is what the scan of the
  two-mode table alone gives, whatever the single-mode table holds; when no two-mode key
  occurs and a single-mode key does, the result is a single-mode method with mode 1;
  otherwise nothing is found. So a string in which keys of both tables occur resolves to
  the two-mode method.
\<close>

theorem gate_from_operator_two_mode_first:
  assumes "PIPE T \<noteq> []"
  shows "gate_from_operator T s =
     (let operator = split_first (PIPE T) s;
          two = matching two_mode_gates operator;
          single = matching single_mode_gates operator
      in Inr (if two \<noteq> [] then (Some (snd (last two)), Some 2)
              else if single \<noteq> [] then (Some (snd (last single)), Some 1)
              else (None, None)))
     \<and> (matching two_mode_gates (split_first (PIPE T) s) \<noteq> [] \<longrightarrow>
          gate_from_operator T s =
            Inr (scan_gates two_mode_gates 2 (split_first (PIPE T) s) (None, None)))"
  using assms by (simp add: gate_from_operator_eq Let_def scan_gates_eq)

theorem gate_from_operator_two_mode_first_witness:
  "PIPE sample_strings \<noteq> [] \<and>
   matching two_mode_gates (split_first (PIPE sample_strings) ''CXgate(1) | (q[0], q[1])'')
     = [(''CXgate'', m_cx)] \<and>
   matching single_mode_gates (split_first (PIPE sample_strings) ''CXgate(1) | (q[0], q[1])'')
     = [(''Xgate'', m_x)] \<and>
   gate_from_operator sample_strings ''CXgate(1) | (q[0], q[1])'' = Inr (Some m_cx, Some 2)"
proof -
  have p: "PIPE sample_strings \<noteq> []"
    by code_simp
  have two: "matching two_mode_gates
               (split_first (PIPE sample_strings) ''CXgate(1) | (q[0], q[1])'')
             = [(''CXgate'', m_cx)]"
    by code_simp
  have single: "matching single_mode_gates
                  (split_first (PIPE sample_strings) ''CXgate(1) | (q[0], q[1])'')
                = [(''Xgate'', m_x)]"
    by code_simp
  have "gate_from_operator sample_strings ''CXgate(1) | (q[0], q[1])'' = Inr (Some m_cx, Some 2)"
    unfolding conjunct1 [OF gate_from_operator_two_mode_first
                              [OF p, of "''CXgate(1) | (q[0], q[1])''"]]
      Let_def two single
    by simp
  then show ?thesis
    using p two single by blast
qed

section \<open>Rejected events\<close>

lemma single_mode_gate_error: "handler_error (fst (single_mode_gate T wire circuit_op m))"
  by (simp add: single_mode_gate_def handler_error_def Let_def split: option.splits)

lemma on_empty_column_error: "on_empty_column T m = Inl e \<Longrightarrow> e = IndexError"
  by (induction m) (auto split: if_splits)

lemma write_wires_error: "handler_error (fst (write_wires circuit_op wires m))"
  by (induction wires arbitrary: m) (auto simp: handler_error_def split: option.splits)

lemma multi_mode_gate_error: "handler_error (fst (multi_mode_gate T circuit_op wires m))"
  by (auto simp: multi_mode_gate_def write_wires_error handler_error_def[of "Some _"]
           split: sum.splits dest: on_empty_column_error)

lemma controlled_mode_gate_error:
  "handler_error (fst (controlled_mode_gate T source_wire target_wire circuit_op m))"
  by (simp add: controlled_mode_gate_def handler_error_def Let_def split: option.splits)

lemma call1_error:
  "(\<And>wire. handler_error (fst (g wire m))) \<Longrightarrow> handler_error (fst (call1 g wires m))"
  by (cases "(g, wires, m)" rule: call1.cases) (auto simp: handler_error_def)

lemma call2_error:
  "(\<And>a b. handler_error (fst (g a b m))) \<Longrightarrow> handler_error (fst (call2 g wires m))"
  by (cases "(g, wires, m)" rule: call2.cases) (auto simp: handler_error_def)

lemma call_method_error: "handler_error (fst (call_method T f wires m))"
  by (cases f)
     (simp_all add: call1_error call2_error single_mode_gate_error multi_mode_gate_error
                    controlled_mode_gate_error)

text \<open>
  C2. When \<^verbatim>\<open>parse_op\<close> raises \<^verbatim>\<open>UnsupportedGateException\<close> or
  \<^verbatim>\<open>ModeMismatchException\<close>, the circuit after the call is the circuit before it; in
  particular its matrix is the same.
\<close>

theorem parse_op_rejection_leaves_circuit:
  assumes "parse_op T op c = (Some e, c')"
    and "e = UnsupportedGateException msg \<or> e = ModeMismatchException msg"
  shows "c' = c \<and> circuit_matrix c' = circuit_matrix c"
proof -
  have no: "call_method T f (op_reg op) (circuit_matrix c) \<noteq> (Some e, m')" for f m'
  proof
    assume h: "call_method T f (op_reg op) (circuit_matrix c) = (Some e, m')"
    have "handler_error (fst (call_method T f (op_reg op) (circuit_matrix c)))"
      by (rule call_method_error)
    with h have "handler_error (Some e)"
      by simp
    with assms(2) show False
      by (auto simp: handler_error_def)
  qed
  then show ?thesis
    using assms
    by (auto simp: parse_op_def gate_from_operator_def Let_def
             split: sum.splits prod.splits option.splits if_splits)
qed

theorem parse_op_rejection_leaves_circuit_witness:
  "parse_op sample_strings \<lparr>op_str = ''MeasureFock() | (q[0])'', op_reg = [0]\<rparr>
     (Circuit_init sample_strings 2)
   = (Some (UnsupportedGateException
        ''Unsupported operation MeasureFock() | (q[0]) not printable by circuit builder!''),
      Circuit_init sample_strings 2)"
proof -
  have run: "fst (parse_op sample_strings \<lparr>op_str = ''MeasureFock() | (q[0])'', op_reg = [0]\<rparr>
               (Circuit_init sample_strings 2))
        = Some (UnsupportedGateException
            ''Unsupported operation MeasureFock() | (q[0]) not printable by circuit builder!'')"
    by code_simp
  show ?thesis
    using run
      parse_op_rejection_leaves_circuit
        [of sample_strings "\<lparr>op_str = ''MeasureFock() | (q[0])'', op_reg = [0]\<rparr>"
            "Circuit_init sample_strings 2"
            "UnsupportedGateException
               ''Unsupported operation MeasureFock() | (q[0]) not printable by circuit builder!''"
            "snd (parse_op sample_strings \<lparr>op_str = ''MeasureFock() | (q[0])'', op_reg = [0]\<rparr>
                    (Circuit_init sample_strings 2))"
            "''Unsupported operation MeasureFock() | (q[0]) not printable by circuit builder!''"]
    by (metis prod.collapse)
qed

text \<open>
  C3, as the code has it. When a key of a gate table occurs in the operator text and the
  number of wires differs from the arity of the table that matched, \<^verbatim>\<open>parse_op\<close> raises
  \<^verbatim>\<open>ModeMismatchException\<close> with the message
  \<^verbatim>\<open>'{0} mode gate applied to {1} wires!'\<close>, filled with the expected arity and the actual
  number of wires, and leaves the circuit as it was. The message holds nothing else: the
  gate-kind string is not part of it.
\<close>

theorem parse_op_mode_mismatch_message:
  assumes "PIPE T \<noteq> []"
    and "operator = split_first (PIPE T) (op_str op)"
    and "matching two_mode_gates operator \<noteq> [] \<or> matching single_mode_gates operator \<noteq> []"
    and "arity = (if matching two_mode_gates operator \<noteq> [] then 2 else 1)"
    and "length (op_reg op) \<noteq> arity"
  shows "parse_op T op c =
           (Some (ModeMismatchException
                    (str_nat arity @ '' mode gate applied to '' @
                     str_nat (length (op_reg op)) @ '' wires!'')), c)"
  using assms
  by (auto simp: parse_op_def gate_from_operator_eq Let_def str_mode_def)

theorem parse_op_mode_mismatch_message_witness:
  "parse_op sample_strings \<lparr>op_str = ''BSgate(0.5, 0) | (q[0])'', op_reg = [0]\<rparr>
          (Circuit_init sample_strings 2)
     = (Some (ModeMismatchException ''2 mode gate applied to 1 wires!''),
        Circuit_init sample_strings 2)"
proof -
  let ?op = "\<lparr>op_str = ''BSgate(0.5, 0) | (q[0])'', op_reg = [0]\<rparr>"
  have p: "PIPE sample_strings \<noteq> []"
    by code_simp
  have two: "matching two_mode_gates (split_first (PIPE sample_strings) (op_str ?op)) \<noteq> []"
    by code_simp
  have len: "length (op_reg ?op) \<noteq> (2::nat)"
    by code_simp
  have msg: "str_nat 2 @ '' mode gate applied to '' @ str_nat (length (op_reg ?op)) @ '' wires!''
             = ''2 mode gate applied to 1 wires!''"
    by code_simp
  show ?thesis
    using parse_op_mode_mismatch_message
            [of sample_strings "split_first (PIPE sample_strings) (op_str ?op)" ?op 2
                "Circuit_init sample_strings 2", OF p]
          two len
    unfolding msg by presburger
qed

text \<open>
  C3, as the specification states it, fails: a beamsplitter applied to one wire is rejected
  with a message in which the gate kind does not occur.
\<close>

theorem parse_op_mode_mismatch_no_gate_kind:
  "fst (parse_op sample_strings \<lparr>op_str = ''BSgate(0.5, 0) | (q[0])'', op_reg = [0]\<rparr>
          (Circuit_init sample_strings 2))
     = Some (ModeMismatchException ''2 mode gate applied to 1 wires!'') \<and>
   \<not> sublist ''BSgate'' ''2 mode gate applied to 1 wires!''"
  by code_simp

section \<open>Single-mode gates\<close>

lemma py_index_valid: "0 \<le> w \<Longrightarrow> w < int n \<Longrightarrow> py_index n w = Some (nat w)"
  by (simp add: py_index_def)

lemma py_index_less: "py_index n w = Some k \<Longrightarrow> k < n"
  by (auto simp: py_index_def split: if_splits)

lemma map_take_drop_nth:
  "i < length xs \<Longrightarrow>
   (map f (take s xs) @ drop s xs) ! i = (if i < s then f (xs ! i) else xs ! i)"
  by (auto simp: nth_append min_def)

lemma take_map_drop_nth:
  "i < length xs \<Longrightarrow>
   (take s xs @ map f (drop s xs)) ! i = (if i < s then xs ! i else f (xs ! i))"
  by (auto simp: nth_append min_def)

lemma single_mode_gate_reuse:
  assumes "py_index (length m) wire = Some k" "m ! k \<noteq> []" "is_empty T (last (m ! k))"
  shows "single_mode_gate T wire circuit_op m = (None, m[k := butlast (m ! k) @ [circuit_op]])"
  using assms by (simp add: single_mode_gate_def set_last_def)

text \<open>
  The branch that appends, for any index Python accepts: the row of the wire gets the gate,
  the rows of the slice before it and the rows of the slice after it get an empty wire.
\<close>

lemma single_mode_gate_overflow:
  assumes "py_index (length m) wire = Some k" "m ! k \<noteq> []" "\<not> is_empty T (last (m ! k))"
  shows "fst (single_mode_gate T wire circuit_op m) = None"
    and "length (snd (single_mode_gate T wire circuit_op m)) = length m"
    and "i < length m \<Longrightarrow>
         snd (single_mode_gate T wire circuit_op m) ! i =
           (m ! i @ (if i = k then [circuit_op] else [])
                 @ (if i < slice_bound (length m) wire then [QUANTUM_WIRE T 1] else [])
                 @ (if slice_bound (length m) (wire + 1) \<le> i then [QUANTUM_WIRE T 1] else []))"
proof -
  let ?f = "\<lambda>r. r @ [QUANTUM_WIRE T 1]"
  define m1 where "m1 = m[k := m ! k @ [circuit_op]]"
  define m2 where "m2 = map ?f (take (slice_bound (length m) wire) m1) @
                          drop (slice_bound (length m) wire) m1"
  define m3 where "m3 = take (slice_bound (length m) (wire + 1)) m2 @
                          map ?f (drop (slice_bound (length m) (wire + 1)) m2)"
  have res: "single_mode_gate T wire circuit_op m = (None, m3)"
    using assms by (simp add: single_mode_gate_def Let_def m1_def m2_def m3_def)
  have l1: "length m1 = length m"
    by (simp add: m1_def)
  have l2: "length m2 = length m"
    unfolding m2_def using l1 by simp
  have l3: "length m3 = length m"
    unfolding m3_def using l2 by simp
  show "fst (single_mode_gate T wire circuit_op m) = None"
    by (simp add: res)
  show "length (snd (single_mode_gate T wire circuit_op m)) = length m"
    by (simp add: res l3)
  show "snd (single_mode_gate T wire circuit_op m) ! i =
           (m ! i @ (if i = k then [circuit_op] else [])
                 @ (if i < slice_bound (length m) wire then [QUANTUM_WIRE T 1] else [])
                 @ (if slice_bound (length m) (wire + 1) \<le> i then [QUANTUM_WIRE T 1] else []))"
    if i: "i < length m"
  proof -
    have n1: "m1 ! i = m ! i @ (if i = k then [circuit_op] else [])"
      using i by (simp add: m1_def nth_list_update)
    have n2: "m2 ! i = (if i < slice_bound (length m) wire then ?f (m1 ! i) else m1 ! i)"
      unfolding m2_def using i l1 by (intro map_take_drop_nth) simp
    have n3: "m3 ! i = (if i < slice_bound (length m) (wire + 1) then m2 ! i else ?f (m2 ! i))"
      unfolding m3_def using i l2 by (intro take_map_drop_nth) simp
    show ?thesis
      by (simp add: res n3 n2 n1)
  qed
qed

text \<open>
  C5. A single-mode gate on a wire \<open>w\<close> of the grid whose last cell is the empty-wire label
  raises nothing and overwrites that cell with the gate label: the other wires are as they
  were, the cells of \<open>w\<close> before the last are as they were, and no wire changes its length.
\<close>

theorem single_mode_gate_reuses_column:
  assumes "0 \<le> w" and "w < int (length m)"
    and "m ! nat w \<noteq> []" and "is_empty T (last (m ! nat w))"
  shows "\<exists>m'. single_mode_gate T w label m = (None, m') \<and>
           length m' = length m \<and>
           (\<forall>i < length m. i \<noteq> nat w \<longrightarrow> m' ! i = m ! i) \<and>
           m' ! nat w = butlast (m ! nat w) @ [label] \<and>
           (\<forall>i < length m. length (m' ! i) = length (m ! i))"
proof -
  have k: "py_index (length m) w = Some (nat w)"
    using assms(1,2) by (rule py_index_valid)
  have lt: "nat w < length m"
    using assms(1,2) by simp
  show ?thesis
    using assms(3) lt
    by (simp add: single_mode_gate_reuse [OF k assms(3,4)] nth_list_update)
qed

theorem single_mode_gate_reuses_column_witness:
  "(0::int) \<le> 1 \<and> (1::int) < int (length [[QUANTUM_WIRE sample_strings 1, gate_box ''X''],
                                     [QUANTUM_WIRE sample_strings 1, QUANTUM_WIRE sample_strings 1]]) \<and>
   single_mode_gate sample_strings 1 (gate_box ''Z'')
     [[QUANTUM_WIRE sample_strings 1, gate_box ''X''],
      [QUANTUM_WIRE sample_strings 1, QUANTUM_WIRE sample_strings 1]]
   = (None, [[QUANTUM_WIRE sample_strings 1, gate_box ''X''],
             [QUANTUM_WIRE sample_strings 1, gate_box ''Z'']])"
proof -
  let ?m = "[[QUANTUM_WIRE sample_strings 1, gate_box ''X''],
             [QUANTUM_WIRE sample_strings 1, QUANTUM_WIRE sample_strings 1]]"
  have h1: "(0::int) \<le> 1"
    by simp
  have h2: "(1::int) < int (length ?m)"
    by simp
  have h3: "?m ! nat 1 \<noteq> []"
    by simp
  have h4: "is_empty sample_strings (last (?m ! nat 1))"
    by (simp add: is_empty_def)
  obtain m' where r: "single_mode_gate sample_strings 1 (gate_box ''Z'') ?m = (None, m')"
    and l: "length m' = length ?m"
    and o: "\<forall>i < length ?m. i \<noteq> nat 1 \<longrightarrow> m' ! i = ?m ! i"
    and w: "m' ! nat 1 = butlast (?m ! nat 1) @ [gate_box ''Z'']"
    using single_mode_gate_reuses_column [OF h1 h2 h3 h4, of "gate_box ''Z''"] by blast
  have "m' ! 0 = ?m ! 0"
    using o by simp
  moreover have "m' ! 1 = [QUANTUM_WIRE sample_strings 1, gate_box ''Z'']"
    using w by simp
  moreover have "length m' = 2"
    using l by simp
  ultimately have "m' = [[QUANTUM_WIRE sample_strings 1, gate_box ''X''],
                         [QUANTUM_WIRE sample_strings 1, gate_box ''Z'']]"
    by (simp add: list_eq_iff_nth_eq less_Suc_eq numeral_2_eq_2)
  then show ?thesis
    using r h1 h2 by simp
qed

text \<open>
  C4. A single-mode gate on a wire \<open>w\<close> of the grid whose last cell is occupied raises
  nothing and appends one cell to every wire: the gate label to \<open>w\<close>, the empty-wire label
  to every other wire. So every wire is longer by exactly one, and, the gate label not being
  the empty-wire label, the new cell of \<open>w\<close> is the only new cell that is not empty.
\<close>

theorem single_mode_gate_adds_column:
  assumes "0 \<le> w" and "w < int (length m)"
    and "m ! nat w \<noteq> []" and "\<not> is_empty T (last (m ! nat w))"
  shows "\<exists>m'. single_mode_gate T w label m = (None, m') \<and>
           length m' = length m \<and>
           (\<forall>i < length m. length (m' ! i) = length (m ! i) + 1) \<and>
           (\<forall>i < length m. m' ! i = m ! i @ [if i = nat w then label else QUANTUM_WIRE T 1]) \<and>
           (\<not> is_empty T label \<longrightarrow>
              (\<forall>i < length m. \<not> is_empty T (last (m' ! i)) \<longleftrightarrow> i = nat w))"
proof -
  have k: "py_index (length m) w = Some (nat w)"
    using assms(1,2) by (rule py_index_valid)
  note ov = single_mode_gate_overflow [OF k assms(3,4), where circuit_op = label]
  have stop: "slice_bound (length m) w = nat w"
    using assms(1,2) by (simp add: slice_bound_def)
  have start: "slice_bound (length m) (w + 1) = Suc (nat w)"
    using assms(1,2) by (auto simp: slice_bound_def min_def)
  have cells: "snd (single_mode_gate T w label m) ! i =
                 m ! i @ [if i = nat w then label else QUANTUM_WIRE T 1]"
    if "i < length m" for i
    using ov(3) [OF that] by (auto simp: stop start)
  have "single_mode_gate T w label m = (None, snd (single_mode_gate T w label m))"
    using ov(1) by (simp add: prod_eq_iff)
  moreover have "\<forall>i < length m. length (snd (single_mode_gate T w label m) ! i) = length (m ! i) + 1"
    by (simp add: cells)
  moreover have "\<not> is_empty T label \<longrightarrow>
     (\<forall>i < length m. \<not> is_empty T (last (snd (single_mode_gate T w label m) ! i)) \<longleftrightarrow> i = nat w)"
    by (simp add: cells is_empty_def)
  ultimately show ?thesis
    using ov(2) cells by blast
qed

theorem single_mode_gate_adds_column_witness:
  "(0::int) \<le> 0 \<and> (0::int) < int (length [[QUANTUM_WIRE sample_strings 1, gate_box ''X''],
                                     [QUANTUM_WIRE sample_strings 1, QUANTUM_WIRE sample_strings 1]]) \<and>
   \<not> is_empty sample_strings (gate_box ''X'') \<and> \<not> is_empty sample_strings (gate_box ''Z'') \<and>
   single_mode_gate sample_strings 0 (gate_box ''Z'')
     [[QUANTUM_WIRE sample_strings 1, gate_box ''X''],
      [QUANTUM_WIRE sample_strings 1, QUANTUM_WIRE sample_strings 1]]
   = (None, [[QUANTUM_WIRE sample_strings 1, gate_box ''X'', gate_box ''Z''],
             [QUANTUM_WIRE sample_strings 1, QUANTUM_WIRE sample_strings 1,
              QUANTUM_WIRE sample_strings 1]])"
proof -
  let ?m = "[[QUANTUM_WIRE sample_strings 1, gate_box ''X''],
             [QUANTUM_WIRE sample_strings 1, QUANTUM_WIRE sample_strings 1]]"
  have h1: "(0::int) \<le> 0"
    by simp
  have h2: "(0::int) < int (length ?m)"
    by simp
  have h3: "?m ! nat 0 \<noteq> []"
    by simp
  have x: "\<not> is_empty sample_strings (gate_box ''X'')"
    by code_simp
  have z: "\<not> is_empty sample_strings (gate_box ''Z'')"
    by code_simp
  have h4: "\<not> is_empty sample_strings (last (?m ! nat 0))"
    using x by simp
  obtain m' where r: "single_mode_gate sample_strings 0 (gate_box ''Z'') ?m = (None, m')"
    and l: "length m' = length ?m"
    and c: "\<forall>i < length ?m. m' ! i = ?m ! i @ [if i = nat 0 then gate_box ''Z''
                                               else QUANTUM_WIRE sample_strings 1]"
    using single_mode_gate_adds_column [OF h1 h2 h3 h4, of "gate_box ''Z''"] by blast
  have "m' ! 0 = [QUANTUM_WIRE sample_strings 1, gate_box ''X'', gate_box ''Z'']"
    using c by simp
  moreover have "m' ! 1 = [QUANTUM_WIRE sample_strings 1, QUANTUM_WIRE sample_strings 1,
                           QUANTUM_WIRE sample_strings 1]"
    using c by simp
  moreover have "length m' = 2"
    using l by simp
  ultimately have "m' = [[QUANTUM_WIRE sample_strings 1, gate_box ''X'', gate_box ''Z''],
                         [QUANTUM_WIRE sample_strings 1, QUANTUM_WIRE sample_strings 1,
                          QUANTUM_WIRE sample_strings 1]]"
    by (simp add: list_eq_iff_nth_eq less_Suc_eq numeral_2_eq_2)
  then show ?thesis
    using r h1 h2 x z by simp
qed

section \<open>Controlled gates\<close>

lemma list3_eq:
  assumes "length xs = 3" and "xs ! 0 = a" and "xs ! 1 = b" and "xs ! 2 = c"
  shows "xs = [a, b, c]"
proof -
  obtain x y z where "xs = [x, y, z]"
    using assms(1) by (auto simp: length_Suc_conv numeral_3_eq_3)
  then show ?thesis
    using assms(2-4) by simp
qed

lemma length_butlast_snoc: "xs \<noteq> [] \<Longrightarrow> length (butlast xs @ [x]) = length xs"
  by (cases xs rule: rev_cases) simp_all

lemma rectangular_nth:
  "rectangular m \<longleftrightarrow> (\<forall>i < length m. \<forall>j < length m. length (m ! i) = length (m ! j))"
  unfolding rectangular_def by (metis in_set_conv_nth)

text \<open>
  C7. A controlled gate with source wire \<open>s\<close> and target wire \<open>t\<close>, two different wires of
  a rectangular grid whose last cells are both empty, raises nothing, appends nothing and
  overwrites the last cell of \<open>s\<close> with the control marker of the signed distance \<open>t - s\<close>
  and the last cell of \<open>t\<close> with the gate label; the two cells are in the same column, the
  last one. For source 0 and target 2 the marker is that of distance 2, for source 2 and
  target 0 that of distance -2.
\<close>

theorem controlled_mode_gate_reuses_column:
  assumes "0 \<le> s" and "s < int (length m)" and "0 \<le> t" and "t < int (length m)"
    and "s \<noteq> t" and "rectangular m"
    and "m ! nat s \<noteq> []" and "m ! nat t \<noteq> []"
    and "is_empty T (last (m ! nat s))" and "is_empty T (last (m ! nat t))"
  shows "\<exists>m' column. controlled_mode_gate T s t label m = (None, m') \<and>
           length m' = length m \<and>
           (\<forall>i < length m. length (m' ! i) = length (m ! i)) \<and>
           (\<forall>i < length m. i \<noteq> nat s \<longrightarrow> i \<noteq> nat t \<longrightarrow> m' ! i = m ! i) \<and>
           m' ! nat s = butlast (m ! nat s) @ [CONTROL T (t - s)] \<and>
           m' ! nat t = butlast (m ! nat t) @ [label] \<and>
           Suc column = length (m' ! nat s) \<and> Suc column = length (m' ! nat t) \<and>
           m' ! nat s ! column = CONTROL T (t - s) \<and>
           m' ! nat t ! column = label"
proof -
  let ?ks = "nat s" and ?kt = "nat t"
  let ?m1 = "m[?ks := butlast (m ! ?ks) @ [CONTROL T (t - s)]]"
  let ?m' = "?m1[?kt := butlast (m ! ?kt) @ [label]]"
  have ks: "py_index (length m) s = Some ?ks" and kt: "py_index (length m) t = Some ?kt"
    using assms(1-4) by (simp_all add: py_index_valid)
  have lt: "?ks < length m" "?kt < length m" and ne: "?ks \<noteq> ?kt"
    using assms(1-5) by simp_all
  have res: "controlled_mode_gate T s t label m = (None, ?m')"
    using assms(7-10) lt ne
    by (simp add: controlled_mode_gate_def ks kt Let_def set_last_def)
  have same: "length (m ! ?ks) = length (m ! ?kt)"
    using assms(6) lt unfolding rectangular_nth by blast
  have rs: "?m' ! ?ks = butlast (m ! ?ks) @ [CONTROL T (t - s)]"
    using lt ne by simp
  have rt: "?m' ! ?kt = butlast (m ! ?kt) @ [label]"
    using lt by simp
  have other: "\<forall>i < length m. i \<noteq> ?ks \<longrightarrow> i \<noteq> ?kt \<longrightarrow> ?m' ! i = m ! i"
    by simp
  have len: "\<forall>i < length m. length (?m' ! i) = length (m ! i)"
  proof (intro allI impI)
    fix i
    assume "i < length m"
    consider "i = ?ks" | "i = ?kt" | "i \<noteq> ?ks" "i \<noteq> ?kt"
      by blast
    then show "length (?m' ! i) = length (m ! i)"
    proof cases
      case 1
      show ?thesis
        unfolding 1 rs using assms(7) by (rule length_butlast_snoc)
    next
      case 2
      show ?thesis
        unfolding 2 rt using assms(8) by (rule length_butlast_snoc)
    next
      case 3
      then show ?thesis
        by simp
    qed
  qed
  define column where "column = length (m ! ?ks) - 1"
  have c1: "Suc column = length (?m' ! ?ks)"
    unfolding rs column_def using assms(7) by simp
  have c2: "Suc column = length (?m' ! ?kt)"
    unfolding rt column_def same using assms(8) by simp
  have c3: "?m' ! ?ks ! column = CONTROL T (t - s)"
    unfolding rs column_def by (simp add: nth_append)
  have c4: "?m' ! ?kt ! column = label"
    unfolding rt column_def same by (simp add: nth_append)
  show ?thesis
    using res len other rs rt c1 c2 c3 c4 by (intro exI[of _ ?m'] exI[of _ column]) simp
qed

theorem controlled_mode_gate_reuses_column_witness:
  "rectangular (circuit_matrix (Circuit_init sample_strings 3)) \<and>
   controlled_mode_gate sample_strings 0 2 (TARGET sample_strings)
       (circuit_matrix (Circuit_init sample_strings 3))
     = (None, [[CHR 0x5C # ''ctrl{2}''], [CHR 0x5C # ''qw[1]''], [CHR 0x5C # ''targ'']]) \<and>
   controlled_mode_gate sample_strings 2 0 (TARGET sample_strings)
       (circuit_matrix (Circuit_init sample_strings 3))
     = (None, [[CHR 0x5C # ''targ''], [CHR 0x5C # ''qw[1]''], [CHR 0x5C # ''ctrl{-2}'']])"
proof -
  let ?m = "circuit_matrix (Circuit_init sample_strings 3)"
  let ?l = "TARGET sample_strings"
  have m: "?m = [[CHR 0x5C # ''qw[1]''], [CHR 0x5C # ''qw[1]''], [CHR 0x5C # ''qw[1]'']]"
    by code_simp
  have len: "length ?m = 3"
    by (simp add: Circuit_init_def)
  have rect: "rectangular ?m"
    by (simp add: Circuit_init_def rectangular_def)
  have row: "?m ! i = [QUANTUM_WIRE sample_strings 1]" if "i < 3" for i
    using that by (simp add: Circuit_init_def)
  have ne: "?m ! nat 0 \<noteq> []" "?m ! nat 2 \<noteq> []"
    by (simp_all add: row)
  have em: "is_empty sample_strings (last (?m ! nat 0))"
    "is_empty sample_strings (last (?m ! nat 2))"
    by (simp_all add: row is_empty_def)
  have c2: "CONTROL sample_strings (2 - 0) = CHR 0x5C # ''ctrl{2}''"
    by code_simp
  have cm2: "CONTROL sample_strings (0 - 2) = CHR 0x5C # ''ctrl{-2}''"
    by code_simp
  have tg: "?l = CHR 0x5C # ''targ''"
    by code_simp
  have b: "butlast (?m ! i) = []" if "i < 3" for i
    using that by (simp add: row)
  obtain m1 where r1: "controlled_mode_gate sample_strings 0 2 ?l ?m = (None, m1)"
    and l1: "length m1 = length ?m"
    and o1: "\<forall>i < length ?m. i \<noteq> nat 0 \<longrightarrow> i \<noteq> nat 2 \<longrightarrow> m1 ! i = ?m ! i"
    and s1: "m1 ! nat 0 = butlast (?m ! nat 0) @ [CONTROL sample_strings (2 - 0)]"
    and t1: "m1 ! nat 2 = butlast (?m ! nat 2) @ [?l]"
    using controlled_mode_gate_reuses_column
            [of 0 ?m 2 sample_strings ?l, OF _ _ _ _ _ rect ne(1) ne(2) em(1) em(2)]
    unfolding len by auto
  obtain m2 where r2: "controlled_mode_gate sample_strings 2 0 ?l ?m = (None, m2)"
    and l2: "length m2 = length ?m"
    and o2: "\<forall>i < length ?m. i \<noteq> nat 2 \<longrightarrow> i \<noteq> nat 0 \<longrightarrow> m2 ! i = ?m ! i"
    and s2: "m2 ! nat 2 = butlast (?m ! nat 2) @ [CONTROL sample_strings (0 - 2)]"
    and t2: "m2 ! nat 0 = butlast (?m ! nat 0) @ [?l]"
    using controlled_mode_gate_reuses_column
            [of 2 ?m 0 sample_strings ?l, OF _ _ _ _ _ rect ne(2) ne(1) em(2) em(1)]
    unfolding len by auto
  have "length m1 = 3"
    using l1 len by simp
  moreover have "m1 ! 0 = [CHR 0x5C # ''ctrl{2}'']"
    using s1 unfolding c2 by (simp add: b)
  moreover have "m1 ! 1 = [CHR 0x5C # ''qw[1]'']"
    using o1 unfolding len m by simp
  moreover have "m1 ! 2 = [CHR 0x5C # ''targ'']"
    using t1 unfolding tg by (simp add: b)
  ultimately have e1: "m1 = [[CHR 0x5C # ''ctrl{2}''], [CHR 0x5C # ''qw[1]''], [CHR 0x5C # ''targ'']]"
    by (intro list3_eq)
  have "length m2 = 3"
    using l2 len by simp
  moreover have "m2 ! 0 = [CHR 0x5C # ''targ'']"
    using t2 unfolding tg by (simp add: b)
  moreover have "m2 ! 1 = [CHR 0x5C # ''qw[1]'']"
    using o2 unfolding len m by simp
  moreover have "m2 ! 2 = [CHR 0x5C # ''ctrl{-2}'']"
    using s2 unfolding cm2 by (simp add: b)
  ultimately have e2: "m2 = [[CHR 0x5C # ''targ''], [CHR 0x5C # ''qw[1]''], [CHR 0x5C # ''ctrl{-2}'']]"
    by (intro list3_eq)
  show ?thesis
    using rect r1 r2 unfolding e1 e2 by blast
qed

section \<open>Multi-mode gates\<close>

lemma on_empty_column_eq:
  "\<forall>r \<in> set m. r \<noteq> [] \<Longrightarrow>
   on_empty_column T m = Inr (\<forall>r \<in> set m. is_empty T (last r))"
  by (induction m) auto

lemma set_last_idem: "set_last x (set_last x xs) = set_last x xs"
  by (simp add: set_last_def)

lemma write_wires_valid:
  assumes "\<forall>r \<in> set m. r \<noteq> []" and "\<forall>w \<in> set wires. 0 \<le> w \<and> w < int (length m)"
  shows "fst (write_wires label wires m) = None \<and>
         length (snd (write_wires label wires m)) = length m \<and>
         (\<forall>i < length m. snd (write_wires label wires m) ! i =
                           (if int i \<in> set wires then set_last label (m ! i) else m ! i))"
  using assms
proof (induction wires arbitrary: m)
  case Nil
  then show ?case by simp
next
  case (Cons w ws)
  let ?k = "nat w"
  let ?m1 = "m[?k := set_last label (m ! ?k)]"
  have k: "py_index (length m) w = Some ?k" and lt: "?k < length m"
    using Cons.prems(2) by (auto simp: py_index_valid)
  have nek: "m ! ?k \<noteq> []"
    using Cons.prems(1) lt by simp
  have step: "write_wires label (w # ws) m = write_wires label ws ?m1"
    using k nek by simp
  have ne1: "\<forall>r \<in> set ?m1. r \<noteq> []"
    using Cons.prems(1) by (auto simp: set_last_def dest!: set_update_subset_insert[THEN subsetD])
  have v1: "\<forall>w \<in> set ws. 0 \<le> w \<and> w < int (length ?m1)"
    using Cons.prems(2) by simp
  note ih = Cons.IH [OF ne1 v1]
  have "snd (write_wires label ws ?m1) ! i =
          (if int i \<in> set (w # ws) then set_last label (m ! i) else m ! i)"
    if "i < length m" for i
  proof -
    have "snd (write_wires label ws ?m1) ! i =
            (if int i \<in> set ws then set_last label (?m1 ! i) else ?m1 ! i)"
      using ih that by simp
    also have "\<dots> = (if int i \<in> set (w # ws) then set_last label (m ! i) else m ! i)"
      using that lt Cons.prems(2) by (auto simp: nth_list_update set_last_idem)
    finally show ?thesis .
  qed
  then show ?case
    unfolding step using ih by simp
qed

text \<open>
  C6. A multi-mode gate on wires of a grid looks at the whole rightmost column. When some
  wire, targeted or not, has an occupied last cell, every wire gets one new cell: the gate
  label on the targeted wires, the empty-wire label on the others. When the whole column is
  empty, nothing is appended and the last cell of each targeted wire is overwritten with the
  gate label.
\<close>

theorem multi_mode_gate_whole_column:
  assumes "\<forall>r \<in> set m. r \<noteq> []" and "\<forall>w \<in> set wires. 0 \<le> w \<and> w < int (length m)"
  shows "\<exists>m'. multi_mode_gate T label wires m = (None, m') \<and>
           length m' = length m \<and>
           ((\<exists>r \<in> set m. \<not> is_empty T (last r)) \<longrightarrow>
              (\<forall>i < length m.
                 m' ! i = m ! i @ [if int i \<in> set wires then label else QUANTUM_WIRE T 1])) \<and>
           ((\<forall>r \<in> set m. is_empty T (last r)) \<longrightarrow>
              (\<forall>i < length m.
                 m' ! i = (if int i \<in> set wires then butlast (m ! i) @ [label] else m ! i)))"
proof (cases "\<forall>r \<in> set m. is_empty T (last r)")
  case True
  have res: "multi_mode_gate T label wires m = write_wires label wires m"
    using True by (simp add: multi_mode_gate_def on_empty_column_eq [OF assms(1)])
  show ?thesis
    using write_wires_valid [OF assms, of label] True
    by (intro exI[of _ "snd (write_wires label wires m)"])
       (simp add: res prod_eq_iff set_last_def)
next
  case False
  let ?m0 = "add_column T m"
  have res: "multi_mode_gate T label wires m = write_wires label wires ?m0"
    using False by (simp add: multi_mode_gate_def on_empty_column_eq [OF assms(1)])
  have ne0: "\<forall>r \<in> set ?m0. r \<noteq> []"
    by (simp add: add_column_def)
  have v0: "\<forall>w \<in> set wires. 0 \<le> w \<and> w < int (length ?m0)"
    using assms(2) by (simp add: add_column_def)
  have len0: "length ?m0 = length m"
    by (simp add: add_column_def)
  have "snd (write_wires label wires ?m0) ! i =
          m ! i @ [if int i \<in> set wires then label else QUANTUM_WIRE T 1]"
    if "i < length m" for i
    using write_wires_valid [OF ne0 v0, of label] that
    by (simp add: len0) (simp add: add_column_def set_last_def)
  moreover have "fst (write_wires label wires ?m0) = None"
    and "length (snd (write_wires label wires ?m0)) = length m"
    using write_wires_valid [OF ne0 v0, of label] by (simp_all add: len0)
  ultimately show ?thesis
    using False
    by (intro exI[of _ "snd (write_wires label wires ?m0)"])
       (auto simp: res prod_eq_iff)
qed

theorem multi_mode_gate_whole_column_witness:
  "(\<exists>r \<in> set [[CHR 0x5C # ''qw[1]''], [CHR 0x5C # ''qw[1]''], [gate_box ''X'']].
      \<not> is_empty sample_strings (last r)) \<and>
   is_empty sample_strings (last [CHR 0x5C # ''qw[1]'']) \<and>
   multi_mode_gate sample_strings (gate_box ''BS'') [0, 1]
       [[CHR 0x5C # ''qw[1]''], [CHR 0x5C # ''qw[1]''], [gate_box ''X'']]
     = (None, [[CHR 0x5C # ''qw[1]'', gate_box ''BS''],
               [CHR 0x5C # ''qw[1]'', gate_box ''BS''],
               [gate_box ''X'', CHR 0x5C # ''qw[1]'']])"
proof -
  let ?q = "CHR 0x5C # ''qw[1]''"
  let ?m = "[[?q], [?q], [gate_box ''X'']]"
  have q: "QUANTUM_WIRE sample_strings 1 = ?q"
    by code_simp
  have free: "is_empty sample_strings (last [?q])"
    by code_simp
  have occ: "\<not> is_empty sample_strings (last [gate_box ''X''])"
    by code_simp
  have some: "\<exists>r \<in> set ?m. \<not> is_empty sample_strings (last r)"
    using occ by simp
  have h1: "\<forall>r \<in> set ?m. r \<noteq> []"
    by simp
  have h2: "\<forall>w \<in> set [0, 1]. 0 \<le> w \<and> w < int (length ?m)"
    by simp
  obtain m' where r: "multi_mode_gate sample_strings (gate_box ''BS'') [0, 1] ?m = (None, m')"
    and l: "length m' = length ?m"
    and c: "\<forall>i < length ?m.
              m' ! i = ?m ! i @ [if int i \<in> set [0, 1] then gate_box ''BS''
                                 else QUANTUM_WIRE sample_strings 1]"
    using multi_mode_gate_whole_column [OF h1 h2, of sample_strings "gate_box ''BS''"] some
    by blast
  have "length m' = 3"
    using l by simp
  moreover have "m' ! 0 = [?q, gate_box ''BS'']"
    using c by simp
  moreover have "m' ! 1 = [?q, gate_box ''BS'']"
    using c by simp
  moreover have "m' ! 2 = [gate_box ''X'', ?q]"
    using c unfolding q by simp
  ultimately have "m' = [[?q, gate_box ''BS''], [?q, gate_box ''BS''], [gate_box ''X'', ?q]]"
    by (intro list3_eq)
  then show ?thesis
    using r some free by blast
qed

section \<open>Rectangularity\<close>

lemma rectangular_shift:
  assumes "rectangular m" and "length m' = length m"
    and "\<forall>i < length m. length (m' ! i) = length (m ! i) + d"
  shows "rectangular m'"
  unfolding rectangular_nth
proof (intro allI impI)
  fix i j
  assume "i < length m'" and "j < length m'"
  then have ij: "i < length m" "j < length m"
    using assms(2) by simp_all
  then have "length (m ! i) = length (m ! j)"
    using assms(1) unfolding rectangular_nth by blast
  then show "length (m' ! i) = length (m' ! j)"
    using assms(3) ij by simp
qed

lemma rectangular_update:
  assumes "rectangular m" and "length r = length (m ! k)"
  shows "rectangular (m[k := r])"
proof (rule rectangular_shift [OF assms(1), where d = 0])
  show "length (m[k := r]) = length m"
    by simp
  show "\<forall>i < length m. length (m[k := r] ! i) = length (m ! i) + 0"
  proof (intro allI impI)
    fix i
    assume "i < length m"
    then show "length (m[k := r] ! i) = length (m ! i) + 0"
      using assms(2) by (cases "i = k") simp_all
  qed
qed

lemma overflow_count:
  assumes "py_index n w = Some k" and "i < n"
  shows "(if i = k then 1 else 0) + (if i < slice_bound n w then 1 else 0) +
         (if slice_bound n (w + 1) \<le> i then 1 else 0) = (if w = - 1 then 2 else (1::nat))"
  using assms by (auto simp: py_index_def slice_bound_def split: if_splits)

lemma single_mode_gate_rectangular:
  assumes "rectangular m"
  shows "rectangular (snd (single_mode_gate T wire circuit_op m))"
proof (cases "py_index (length m) wire")
  case None
  then show ?thesis
    using assms by (simp add: single_mode_gate_def)
next
  case (Some k)
  show ?thesis
  proof (cases "m ! k = []")
    case True
    then show ?thesis
      using assms Some by (simp add: single_mode_gate_def)
  next
    case False
    show ?thesis
    proof (cases "is_empty T (last (m ! k))")
      case True
      have "rectangular (m[k := butlast (m ! k) @ [circuit_op]])"
        using assms length_butlast_snoc [OF False] by (rule rectangular_update)
      then show ?thesis
        by (simp add: single_mode_gate_reuse [OF Some False True])
    next
      case occupied: False
      note ov = single_mode_gate_overflow [OF Some False occupied, where circuit_op = circuit_op]
      show ?thesis
      proof (rule rectangular_shift [OF assms ov(2), where d = "if wire = - 1 then 2 else 1"])
        show "\<forall>i < length m.
                length (snd (single_mode_gate T wire circuit_op m) ! i) =
                length (m ! i) + (if wire = - 1 then 2 else 1)"
        proof (intro allI impI)
          fix i
          assume i: "i < length m"
          have "length (snd (single_mode_gate T wire circuit_op m) ! i) =
                  length (m ! i) +
                  ((if i = k then 1 else 0) +
                   (if i < slice_bound (length m) wire then 1 else 0) +
                   (if slice_bound (length m) (wire + 1) \<le> i then 1 else 0))"
            unfolding ov(3) [OF i] by simp
          then show "length (snd (single_mode_gate T wire circuit_op m) ! i) =
                  length (m ! i) + (if wire = - 1 then 2 else 1)"
            unfolding overflow_count [OF Some i] .
        qed
      qed
    qed
  qed
qed

lemma write_wires_lengths:
  "length (snd (write_wires circuit_op wires m)) = length m \<and>
   (\<forall>i < length m. length (snd (write_wires circuit_op wires m) ! i) = length (m ! i))"
proof (induction wires arbitrary: m)
  case Nil
  then show ?case by simp
next
  case (Cons w ws)
  show ?case
  proof (cases "py_index (length m) w")
    case None
    then show ?thesis by simp
  next
    case (Some k)
    show ?thesis
    proof (cases "m ! k = []")
      case True
      then show ?thesis using Some by simp
    next
      case False
      let ?m1 = "m[k := set_last circuit_op (m ! k)]"
      have step: "write_wires circuit_op (w # ws) m = write_wires circuit_op ws ?m1"
        using Some False by simp
      have l1: "length ?m1 = length m"
        by simp
      have r1: "length (?m1 ! i) = length (m ! i)" if "i < length m" for i
        using that length_butlast_snoc [OF False, of circuit_op]
        by (cases "i = k") (simp_all add: set_last_def del: length_butlast)
      show ?thesis
        unfolding step using Cons.IH [of ?m1] r1 by (simp add: l1)
    qed
  qed
qed

lemma write_wires_rectangular:
  assumes "rectangular m"
  shows "rectangular (snd (write_wires circuit_op wires m))"
proof (rule rectangular_shift [OF assms, where d = 0])
  show "length (snd (write_wires circuit_op wires m)) = length m"
    using write_wires_lengths [of circuit_op wires m] by simp
  show "\<forall>i < length m. length (snd (write_wires circuit_op wires m) ! i) = length (m ! i) + 0"
    using write_wires_lengths [of circuit_op wires m] by simp
qed

lemma add_column_rectangular:
  assumes "rectangular m"
  shows "rectangular (add_column T m)"
proof (rule rectangular_shift [OF assms, where d = 1])
  show "length (add_column T m) = length m"
    by (simp add: add_column_def)
  show "\<forall>i < length m. length (add_column T m ! i) = length (m ! i) + 1"
    by (simp add: add_column_def)
qed

lemma multi_mode_gate_rectangular:
  assumes "rectangular m"
  shows "rectangular (snd (multi_mode_gate T circuit_op wires m))"
proof (cases "on_empty_column T m")
  case (Inl e)
  then show ?thesis
    using assms by (simp add: multi_mode_gate_def)
next
  case (Inr empty_column)
  then show ?thesis
    using assms
    by (simp add: multi_mode_gate_def write_wires_rectangular add_column_rectangular)
qed

lemma controlled_mode_gate_rectangular:
  assumes "rectangular m"
  shows "rectangular (snd (controlled_mode_gate T source_wire target_wire circuit_op m))"
proof -
  let ?d = "target_wire - source_wire"
  let ?f = "\<lambda>(index, wire_ops).
              if int index = source_wire then wire_ops @ [CONTROL T ?d]
              else if int index = target_wire then wire_ops @ [circuit_op]
              else wire_ops @ [QUANTUM_WIRE T 1]"
  let ?appended = "map ?f (enumerate 0 m)"
  have app: "rectangular ?appended"
  proof (rule rectangular_shift [OF assms, where d = 1])
    show "length ?appended = length m"
      by simp
    show "\<forall>i < length m. length (?appended ! i) = length (m ! i) + 1"
    proof (intro allI impI)
      fix i
      assume i: "i < length m"
      have "?appended ! i = ?f (i, m ! i)"
        using i by (simp add: nth_enumerate_eq)
      then show "length (?appended ! i) = length (m ! i) + 1"
        by simp
    qed
  qed
  have reuse: "rectangular (m1[kt := set_last circuit_op (m1 ! kt)])"
    if "m ! ks \<noteq> []" and "m ! kt \<noteq> []" and "m1 = m[ks := set_last (CONTROL T ?d) (m ! ks)]"
    for ks kt m1
  proof -
    have "length (set_last (CONTROL T ?d) (m ! ks)) = length (m ! ks)"
      unfolding set_last_def using that(1) by (rule length_butlast_snoc)
    then have r1: "rectangular m1"
      unfolding that(3) using assms by (rule rectangular_update [rotated])
    have "m1 ! kt \<noteq> []"
      unfolding that(3) using that(2)
      by (cases "kt = ks"; cases "ks < length m") (simp_all add: set_last_def list_update_beyond)
    then have "length (set_last circuit_op (m1 ! kt)) = length (m1 ! kt)"
      unfolding set_last_def by (rule length_butlast_snoc)
    then show ?thesis
      using r1 by (rule rectangular_update [rotated])
  qed
  show ?thesis
  proof (cases "py_index (length m) source_wire")
    case None
    then show ?thesis
      using assms by (simp add: controlled_mode_gate_def)
  next
    case ks: (Some ks)
    show ?thesis
    proof (cases "py_index (length m) target_wire")
      case None
      then show ?thesis
        using assms ks by (simp add: controlled_mode_gate_def)
    next
      case kt: (Some kt)
      let ?m1 = "m[ks := set_last (CONTROL T ?d) (m ! ks)]"
      let ?r = "snd (controlled_mode_gate T source_wire target_wire circuit_op m)"
      have "?r = m \<or> ?r = ?appended \<or>
            (?r = ?m1[kt := set_last circuit_op (?m1 ! kt)] \<and> m ! ks \<noteq> [] \<and> m ! kt \<noteq> [])"
        by (simp add: controlled_mode_gate_def ks kt Let_def)
      then consider "?r = m" | "?r = ?appended"
        | "?r = ?m1[kt := set_last circuit_op (?m1 ! kt)]" "m ! ks \<noteq> []" "m ! kt \<noteq> []"
        by blast
      then show ?thesis
      proof cases
        case 1
        then show ?thesis using assms by simp
      next
        case 2
        then show ?thesis using app by simp
      next
        case 3
        show ?thesis
          unfolding 3(1) using 3(2,3) by (rule reuse) simp
      qed
    qed
  qed
qed

lemma call1_rectangular:
  "(\<And>wire. rectangular (snd (g wire m))) \<Longrightarrow> rectangular m \<Longrightarrow>
   rectangular (snd (call1 g wires m))"
  by (cases "(g, wires, m)" rule: call1.cases) simp_all

lemma call2_rectangular:
  "(\<And>a b. rectangular (snd (g a b m))) \<Longrightarrow> rectangular m \<Longrightarrow>
   rectangular (snd (call2 g wires m))"
  by (cases "(g, wires, m)" rule: call2.cases) simp_all

lemma call_method_rectangular:
  assumes "rectangular m"
  shows "rectangular (snd (call_method T f wires m))"
  using assms
  by (cases f)
     (simp_all add: call1_rectangular call2_rectangular single_mode_gate_rectangular
                    multi_mode_gate_rectangular controlled_mode_gate_rectangular)

lemma parse_op_rectangular:
  assumes "rectangular (circuit_matrix c)"
  shows "rectangular (circuit_matrix (snd (parse_op T op c)))"
proof -
  have cm: "rectangular m'"
    if "call_method T f (op_reg op) (circuit_matrix c) = (e, m')" for f e m'
    using call_method_rectangular [OF assms, of T f "op_reg op"] that by simp
  show ?thesis
    using assms cm
    by (auto simp: parse_op_def Let_def split: sum.splits option.splits prod.splits)
qed

lemma run_events_rectangular:
  "rectangular (circuit_matrix c) \<Longrightarrow> rectangular (circuit_matrix (run_events T ops c))"
  by (induction ops arbitrary: c) (simp_all add: parse_op_rectangular)

lemma Circuit_init_rectangular: "rectangular (circuit_matrix (Circuit_init T W))"
  by (simp add: Circuit_init_def rectangular_def)

text \<open>The sample program, run on a fresh circuit of three wires.\<close>

lemma demo_run:
  "circuit_matrix (run_events sample_strings demo_ops (Circuit_init sample_strings 3)) =
     [[gate_box ''X'', gate_box ''Z'', gate_box ''BS'', CHR 0x5C # ''ctrl{2}''],
      [CHR 0x5C # ''qw[1]'', CHR 0x5C # ''qw[1]'', gate_box ''BS'', CHR 0x5C # ''qw[1]''],
      [CHR 0x5C # ''qw[1]'', CHR 0x5C # ''qw[1]'', CHR 0x5C # ''qw[1]'', CHR 0x5C # ''targ'']]"
  by code_simp

text \<open>
  C1. A circuit constructed with any number of wires is rectangular, and it is rectangular
  after every event of every sequence of events given to \<^verbatim>\<open>parse_op\<close>, whether the event
  was accepted or raised an exception (so in particular after each event of a sequence of
  accepted events). Each of the three placement strategies, called on a rectangular grid
  with any arguments, leaves a rectangular grid.
\<close>

theorem grid_stays_rectangular:
  "(\<forall>k \<le> length ops.
      rectangular (circuit_matrix (run_events T (take k ops) (Circuit_init T W)))) \<and>
   (rectangular m \<longrightarrow> rectangular (snd (single_mode_gate T wire label m))) \<and>
   (rectangular m \<longrightarrow> rectangular (snd (multi_mode_gate T label wires m))) \<and>
   (rectangular m \<longrightarrow> rectangular (snd (controlled_mode_gate T source target label m)))"
proof (intro conjI allI impI)
  fix k
  show "rectangular (circuit_matrix (run_events T (take k ops) (Circuit_init T W)))"
    by (rule run_events_rectangular [OF Circuit_init_rectangular])
next
  assume "rectangular m"
  then show "rectangular (snd (single_mode_gate T wire label m))"
    by (rule single_mode_gate_rectangular)
next
  assume "rectangular m"
  then show "rectangular (snd (multi_mode_gate T label wires m))"
    by (rule multi_mode_gate_rectangular)
next
  assume "rectangular m"
  then show "rectangular (snd (controlled_mode_gate T source target label m))"
    by (rule controlled_mode_gate_rectangular)
qed

theorem grid_stays_rectangular_witness:
  "rectangular [[CHR 0x5C # ''qw[1]'', gate_box ''X''],
                [CHR 0x5C # ''qw[1]'', CHR 0x5C # ''qw[1]'']] \<and>
   rectangular (circuit_matrix (run_events sample_strings (take 5 demo_ops)
                                  (Circuit_init sample_strings 3))) \<and>
   rectangular (snd (single_mode_gate sample_strings 0 (gate_box ''Z'')
                  [[CHR 0x5C # ''qw[1]'', gate_box ''X''],
                   [CHR 0x5C # ''qw[1]'', CHR 0x5C # ''qw[1]'']])) \<and>
   rectangular (snd (multi_mode_gate sample_strings (gate_box ''Z'') [0, 1]
                  [[CHR 0x5C # ''qw[1]'', gate_box ''X''],
                   [CHR 0x5C # ''qw[1]'', CHR 0x5C # ''qw[1]'']])) \<and>
   rectangular (snd (controlled_mode_gate sample_strings 0 1 (gate_box ''Z'')
                  [[CHR 0x5C # ''qw[1]'', gate_box ''X''],
                   [CHR 0x5C # ''qw[1]'', CHR 0x5C # ''qw[1]'']]))"
proof -
  let ?m = "[[CHR 0x5C # ''qw[1]'', gate_box ''X''],
             [CHR 0x5C # ''qw[1]'', CHR 0x5C # ''qw[1]'']]"
  have r: "rectangular ?m"
    by (simp add: rectangular_def)
  have k: "5 \<le> length demo_ops"
    by (simp add: demo_ops_def)
  note inst = grid_stays_rectangular
                [of demo_ops sample_strings 3 ?m 0 "gate_box ''Z''" "[0, 1]" 0 1]
  have run: "rectangular (circuit_matrix (run_events sample_strings (take 5 demo_ops)
                                            (Circuit_init sample_strings 3)))"
    by (rule conjunct1 [OF inst, rule_format, OF k])
  have single: "rectangular (snd (single_mode_gate sample_strings 0 (gate_box ''Z'') ?m))"
    by (rule conjunct1 [OF conjunct2 [OF inst], THEN mp, OF r])
  have multi: "rectangular (snd (multi_mode_gate sample_strings (gate_box ''Z'') [0, 1] ?m))"
    by (rule conjunct1 [OF conjunct2 [OF conjunct2 [OF inst]], THEN mp, OF r])
  have controlled:
    "rectangular (snd (controlled_mode_gate sample_strings 0 1 (gate_box ''Z'') ?m))"
    by (rule conjunct2 [OF conjunct2 [OF conjunct2 [OF inst]], THEN mp, OF r])
  show ?thesis
    by (intro conjI) (fact r, fact run, fact single, fact multi, fact controlled)
qed

end
